theory Spec2Isabelle
  imports Complex_Main "HOL-Library.AList" "HOL-Library.Multiset"
begin

section \<open>Data model\<close>

text \<open>
  The analytics router of the backend (\<^verbatim>\<open>routers/analytics.py\<close>) over the tables of
  \<^verbatim>\<open>models/analytics.py\<close>. Python exceptions are values of \<open>error\<close>; a function
  that can raise returns \<open>error + 'a\<close>, with \<open>Inl\<close> for the exception.
  Python floats are idealised as \<open>real\<close>: scores and averages are the exact quotients,
  without IEEE rounding. A \<^verbatim>\<open>datetime\<close> is a number of microseconds, a
  \<^verbatim>\<open>timedelta\<close> a difference of two.
\<close>

datatype error =
    ZeroDivisionError
  | AttributeError
  | TypeError
  | IndexError
  | HTTPException nat string
  | GroqError string

type_synonym datetime = int

text \<open>\<^verbatim>\<open>class QuestionSubmission(BaseModel)\<close>: five string fields, and no other.\<close>

record QuestionSubmission =
  question_text :: string
  correct_answer :: string
  student_answer :: string
  topic :: string
  subtopic :: string

text \<open>\<^verbatim>\<open>class TestSubmission(BaseModel)\<close>: the questions and the time taken, in seconds.\<close>

record TestSubmission =
  questions :: "QuestionSubmission list"
  time_taken :: int

text \<open>
  One entry of the \<^verbatim>\<open>"questions"\<close> list of a topic, and the value stored under a
  topic in \<^verbatim>\<open>topic_performance\<close>. The dict keeps its keys in insertion order and
  holds each key once: an association list, extended at the end.
\<close>

record question_detail =
  d_question :: string
  d_correct_answer :: string
  d_student_answer :: string
  d_is_correct :: bool

record topic_data =
  correct :: nat
  total :: nat
  t_questions :: "question_detail list"

type_synonym topic_performance_t = "(string \<times> topic_data) list"

text \<open>The dict returned by \<^verbatim>\<open>generate_ai_insights\<close>.\<close>

record insights =
  analysis :: string
  topic_performance :: topic_performance_t
  score :: real
  i_time_taken :: int

text \<open>
  The rows of \<^verbatim>\<open>test_results\<close>, \<^verbatim>\<open>test_questions\<close> and \<^verbatim>\<open>student_analytics\<close>.
  Fields whose name another record already has carry a prefix. A column that the
  constructor call of the source does not set is \<open>None\<close> on the new object: a
  \<^verbatim>\<open>Column(default=...)\<close> is filled in by the INSERT, at flush, not by the constructor.
\<close>

record TestResult =
  tr_id :: nat
  tr_student_id :: nat
  tr_test_id :: nat
  tr_score :: real
  completed_at :: datetime
  ai_feedback :: insights
  tr_total_questions :: nat
  tr_correct_answers :: nat
  topics_summary :: topic_performance_t
  tr_time_taken :: int

record TestQuestion =
  test_result_id :: nat
  tq_question_text :: string
  tq_correct_answer :: string
  tq_student_answer :: string
  is_correct :: bool
  tq_topic :: string
  tq_subtopic :: string

record StudentAnalytics =
  student_id :: nat
  total_flashcards_viewed :: "int option"
  total_tests_taken :: "int option"
  average_test_score :: "real option"
  weak_topics :: "string list option"
  strong_topics :: "string list option"
  learning_streak :: "int option"
  last_activity :: "datetime option"
  historical_performance :: "string option"

text \<open>
  The committed database: the two tables of results in insertion order, and the
  analytics row of each student (\<^verbatim>\<open>student_id\<close> is \<^verbatim>\<open>unique\<close>).
\<close>

record db =
  test_results :: "TestResult list"
  test_questions :: "TestQuestion list"
  student_analytics :: "nat \<rightharpoonup> StudentAnalytics"

section \<open>Scoring and grouping by topic (\<^verbatim>\<open>generate_ai_insights\<close>, lines 31 to 49)\<close>

text \<open>\<^verbatim>\<open>q.student_answer == q.correct_answer\<close>: equality of the two strings as they are.\<close>

definition answered_correctly :: "QuestionSubmission \<Rightarrow> bool" where
  "answered_correctly q = (student_answer q = correct_answer q)"

text \<open>
  Lines 31 to 33: \<^verbatim>\<open>correct_count\<close>, \<^verbatim>\<open>total_questions\<close> and
  \<^verbatim>\<open>score = (correct_count / total_questions) * 100\<close>; the division raises on an
  empty list.
\<close>

definition score_questions :: "QuestionSubmission list \<Rightarrow> error + (nat \<times> nat \<times> real)" where
  "score_questions qs =
     (let correct_count = length (filter answered_correctly qs);
          total_questions = length qs
      in if total_questions = 0 then Inl ZeroDivisionError
         else Inr (correct_count, total_questions,
                   (real correct_count / real total_questions) * 100))"

definition detail_of :: "QuestionSubmission \<Rightarrow> question_detail" where
  "detail_of q =
     \<lparr>d_question = question_text q, d_correct_answer = correct_answer q,
      d_student_answer = student_answer q, d_is_correct = answered_correctly q\<rparr>"

text \<open>The body of the loop of lines 37 to 49, for one question.\<close>

definition tally_question :: "topic_performance_t \<Rightarrow> QuestionSubmission \<Rightarrow> topic_performance_t" where
  "tally_question tp q =
     (let tp1 = (if map_of tp (topic q) = None
                 then tp @ [(topic q, \<lparr>correct = 0, total = 0, t_questions = []\<rparr>)]
                 else tp)
      in AList.map_entry (topic q)
           (\<lambda>d. \<lparr>correct = correct d + (if answered_correctly q then 1 else 0),
                 total = total d + 1,
                 t_questions = t_questions d @ [detail_of q]\<rparr>) tp1)"

definition group_by_topic :: "QuestionSubmission list \<Rightarrow> topic_performance_t" where
  "group_by_topic qs = foldl tally_question [] qs"

section \<open>The insight composer (\<^verbatim>\<open>generate_ai_insights\<close>)\<close>

text \<open>
  Lines 52 to 59: the sentence about the average of the previous results, kept as the
  branch taken and the average it prints.
\<close>

datatype history = NoHistory | AboveAverage real | BelowAverage real

definition historical_context :: "real \<Rightarrow> TestResult list \<Rightarrow> history" where
  "historical_context sc previous_results =
     (if previous_results = [] then NoHistory
      else let avg_score = sum_list (map tr_score previous_results)
                             / real (length previous_results)
           in if sc > avg_score then AboveAverage avg_score else BelowAverage avg_score)"

text \<open>
  \<^verbatim>\<open>questions[0].time_taken\<close> (lines 67 and 93): the first question, and its attribute
  \<^verbatim>\<open>time_taken\<close>. \<^verbatim>\<open>QuestionSubmission\<close> declares no such field, so reading it raises.
\<close>

definition question_time_taken :: "QuestionSubmission \<Rightarrow> error + int" where
  "question_time_taken q = Inl AttributeError"

definition first_question_time_taken :: "QuestionSubmission list \<Rightarrow> error + int" where
  "first_question_time_taken qs =
     (case qs of [] \<Rightarrow> Inl IndexError | q # _ \<Rightarrow> question_time_taken q)"

text \<open>The values the prompt of lines 62 to 80 is formatted from.\<close>

record prompt =
  p_score :: real
  p_correct_count :: nat
  p_total_questions :: nat
  p_time_taken :: int
  p_topic_performance :: topic_performance_t
  p_historical_context :: history

text \<open>
  The call of the language model (lines 82 to 87) is a parameter \<open>groq\<close>: from the
  prompt to the text of the completion, or the exception the client raises.
\<close>

definition generate_ai_insights ::
  "(prompt \<Rightarrow> error + string) \<Rightarrow> QuestionSubmission list \<Rightarrow> TestResult list \<Rightarrow> error + insights" where
  "generate_ai_insights groq qs previous_results =
     (case score_questions qs of
        Inl e \<Rightarrow> Inl e
      | Inr (correct_count, total_questions, sc) \<Rightarrow>
          let tp = group_by_topic qs;
              hist = historical_context sc previous_results
          in (case first_question_time_taken qs of
                Inl e \<Rightarrow> Inl e
              | Inr t \<Rightarrow>
                 (case groq \<lparr>p_score = sc, p_correct_count = correct_count,
                              p_total_questions = total_questions, p_time_taken = t,
                              p_topic_performance = tp, p_historical_context = hist\<rparr> of
                    Inl e \<Rightarrow> Inl e
                  | Inr text \<Rightarrow>
                     (case first_question_time_taken qs of
                        Inl e \<Rightarrow> Inl e
                      | Inr t' \<Rightarrow>
                          Inr \<lparr>analysis = text, topic_performance = tp, score = sc,
                               i_time_taken = t'\<rparr>))))"

section \<open>Queries\<close>

text \<open>
  \<^verbatim>\<open>filter(TestResult.student_id == student_id).order_by(completed_at.desc()).limit(n).all()\<close>.
  Rows with the same \<^verbatim>\<open>completed_at\<close> stay in the order of the table.
\<close>

definition recent_results :: "nat \<Rightarrow> nat \<Rightarrow> db \<Rightarrow> TestResult list" where
  "recent_results n sid d =
     take n (sort_key (\<lambda>r. - completed_at r)
               (filter (\<lambda>r. tr_student_id r = sid) (test_results d)))"

section \<open>The analytics aggregator (\<^verbatim>\<open>submit_test\<close>, lines 139 to 167)\<close>

text \<open>\<^verbatim>\<open>StudentAnalytics(student_id=student_id)\<close>: only \<^verbatim>\<open>student_id\<close> is set.\<close>

definition new_StudentAnalytics :: "nat \<Rightarrow> StudentAnalytics" where
  "new_StudentAnalytics sid =
     \<lparr>student_id = sid, total_flashcards_viewed = None, total_tests_taken = None,
      average_test_score = None, weak_topics = None, strong_topics = None,
      learning_streak = None, last_activity = None, historical_performance = None\<rparr>"

text \<open>Lines 155 to 158: the accuracy of each topic, \<^verbatim>\<open>(correct / total) * 100\<close>.\<close>

fun topic_strengths :: "topic_performance_t \<Rightarrow> error + (string \<times> real) list" where
  "topic_strengths [] = Inr []"
| "topic_strengths ((t, d) # rest) =
     (if total d = 0 then Inl ZeroDivisionError
      else (case topic_strengths rest of
              Inl e \<Rightarrow> Inl e
            | Inr ts \<Rightarrow> Inr ((t, (real (correct d) / real (total d)) * 100) # ts)))"

text \<open>\<^verbatim>\<open>timedelta(days=1)\<close>, in microseconds.\<close>

definition one_day :: int where
  "one_day = 86400000000"

text \<open>
  Lines 147 to 167 on the analytics object, in the order of the source. \<open>now1\<close> is what
  \<^verbatim>\<open>datetime.utcnow()\<close> returns at line 148, \<open>now2\<close> what it returns at line 164.
  \<^verbatim>\<open>+= 1\<close> on a column that is \<^verbatim>\<open>None\<close> raises \<^verbatim>\<open>TypeError\<close>.
\<close>

definition update_analytics ::
  "datetime \<Rightarrow> datetime \<Rightarrow> StudentAnalytics \<Rightarrow> TestResult list \<Rightarrow> insights \<Rightarrow> error + StudentAnalytics" where
  "update_analytics now1 now2 analytics previous_results ins =
     (case total_tests_taken analytics of
        None \<Rightarrow> Inl TypeError
      | Some n \<Rightarrow>
          let a1 = analytics\<lparr>total_tests_taken := Some (n + 1)\<rparr>;
              a2 = a1\<lparr>last_activity := Some now1\<rparr>;
              all_scores = map tr_score previous_results @ [score ins];
              a3 = a2\<lparr>average_test_score :=
                        Some (sum_list all_scores / real (length all_scores))\<rparr>
          in (case topic_strengths (topic_performance ins) of
                Inl e \<Rightarrow> Inl e
              | Inr ts \<Rightarrow>
                  let a4 = a3\<lparr>weak_topics := Some (map fst (filter (\<lambda>(t, s). s < 70) ts))\<rparr>;
                      a5 = a4\<lparr>strong_topics := Some (map fst (filter (\<lambda>(t, s). s \<ge> 90) ts))\<rparr>
                  in (case last_activity a5 of
                        None \<Rightarrow> Inr (a5\<lparr>learning_streak := Some 1\<rparr>)
                      | Some la \<Rightarrow>
                          if now2 - la \<le> one_day
                          then (case learning_streak a5 of
                                  None \<Rightarrow> Inl TypeError
                                | Some k \<Rightarrow> Inr (a5\<lparr>learning_streak := Some (k + 1)\<rparr>))
                          else Inr (a5\<lparr>learning_streak := Some 1\<rparr>))))"

section \<open>\<^verbatim>\<open>submit_test\<close>\<close>

text \<open>The \<^verbatim>\<open>analytics_summary\<close> of the response, and the response.\<close>

record analytics_summary =
  s_total_tests :: "int option"
  s_average_score :: "real option"
  s_learning_streak :: "int option"
  s_weak_topics :: "string list option"
  s_strong_topics :: "string list option"

record submit_response =
  r_insights :: insights
  r_analytics_summary :: analytics_summary

definition next_id :: "TestResult list \<Rightarrow> nat" where
  "next_id rows = Suc (foldr max (map tr_id rows) 0)"

text \<open>
  Lines 111 to 169: the new \<^verbatim>\<open>TestResult\<close> (its \<^verbatim>\<open>completed_at\<close> is the clock \<open>now0\<close>
  at the flush), its \<^verbatim>\<open>TestQuestion\<close> rows, the analytics row, and the commit. An
  exception before \<^verbatim>\<open>db.commit()\<close> leaves the committed database as it was.
\<close>

definition store_submission ::
  "datetime \<Rightarrow> datetime \<Rightarrow> datetime \<Rightarrow> db \<Rightarrow> nat \<Rightarrow> nat \<Rightarrow> TestSubmission \<Rightarrow> TestResult list
     \<Rightarrow> insights \<Rightarrow> (error + submit_response) \<times> db" where
  "store_submission now0 now1 now2 d sid tid sub previous_results ins =
     (let test_result =
            \<lparr>tr_id = next_id (test_results d), tr_student_id = sid, tr_test_id = tid,
             tr_score = score ins, completed_at = now0, ai_feedback = ins,
             tr_total_questions = length (questions sub),
             tr_correct_answers = length (filter answered_correctly (questions sub)),
             topics_summary = topic_performance ins, tr_time_taken = time_taken sub\<rparr>;
          new_questions =
            map (\<lambda>q. \<lparr>test_result_id = tr_id test_result, tq_question_text = question_text q,
                       tq_correct_answer = correct_answer q,
                       tq_student_answer = student_answer q,
                       is_correct = answered_correctly q, tq_topic = topic q,
                       tq_subtopic = subtopic q\<rparr>) (questions sub);
          analytics = (case student_analytics d sid of
                         None \<Rightarrow> new_StudentAnalytics sid
                       | Some a \<Rightarrow> a)
      in (case update_analytics now1 now2 analytics previous_results ins of
            Inl e \<Rightarrow> (Inl e, d)
          | Inr a \<Rightarrow>
              (Inr \<lparr>r_insights = ins,
                    r_analytics_summary =
                      \<lparr>s_total_tests = total_tests_taken a,
                       s_average_score = average_test_score a,
                       s_learning_streak = learning_streak a,
                       s_weak_topics = weak_topics a,
                       s_strong_topics = strong_topics a\<rparr>\<rparr>,
               d\<lparr>test_results := test_results d @ [test_result],
                  test_questions := test_questions d @ new_questions,
                  student_analytics := (student_analytics d)(sid \<mapsto> a)\<rparr>)))"

definition submit_test ::
  "(prompt \<Rightarrow> error + string) \<Rightarrow> datetime \<Rightarrow> datetime \<Rightarrow> datetime \<Rightarrow> db \<Rightarrow> nat \<Rightarrow> nat
     \<Rightarrow> TestSubmission \<Rightarrow> (error + submit_response) \<times> db" where
  "submit_test groq now0 now1 now2 d sid tid sub =
     (let previous_results = recent_results 5 sid d
      in (case generate_ai_insights groq (questions sub) previous_results of
            Inl e \<Rightarrow> (Inl e, d)
          | Inr ins \<Rightarrow> store_submission now0 now1 now2 d sid tid sub previous_results ins))"

section \<open>\<^verbatim>\<open>get_student_performance\<close>\<close>

record test_datum =
  date :: datetime
  td_score :: real
  topics :: "string list"
  td_time_taken :: int
  td_insights :: string

record overall_stats =
  o_total_tests_taken :: "int option"
  o_average_score :: "real option"
  o_learning_streak :: "int option"
  o_weak_topics :: "string list option"
  o_strong_topics :: "string list option"
  o_last_activity :: "datetime option"

record performance =
  stats :: overall_stats
  recent_tests :: "test_datum list"
  performance_chart :: "string option"

definition test_datum_of :: "TestResult \<Rightarrow> test_datum" where
  "test_datum_of t =
     \<lparr>date = completed_at t, td_score = tr_score t, topics = map fst (topics_summary t),
      td_time_taken = tr_time_taken t, td_insights = analysis (ai_feedback t)\<rparr>"

text \<open>
  The rendering of the chart (\<^verbatim>\<open>px.line(...).to_json()\<close>) is a parameter \<open>chart\<close>, from the
  series of dates and scores to the serialised figure.
\<close>

definition get_student_performance ::
  "((datetime \<times> real) list \<Rightarrow> string) \<Rightarrow> db \<Rightarrow> nat \<Rightarrow> error + performance" where
  "get_student_performance chart d sid =
     (case student_analytics d sid of
        None \<Rightarrow> Inl (HTTPException 404 ''Student analytics not found'')
      | Some a \<Rightarrow>
          let test_data = map test_datum_of (recent_results 10 sid d)
          in Inr \<lparr>stats =
                    \<lparr>o_total_tests_taken = total_tests_taken a,
                     o_average_score = average_test_score a,
                     o_learning_streak = learning_streak a,
                     o_weak_topics = weak_topics a,
                     o_strong_topics = strong_topics a,
                     o_last_activity = last_activity a\<rparr>,
                  recent_tests = test_data,
                  performance_chart =
                    (if test_data \<noteq> []
                     then Some (chart (map (\<lambda>x. (date x, td_score x)) test_data))
                     else None)\<rparr>)"

section \<open>What the tallies and accuracies of a submission are\<close>

text \<open>
  The tally of topic \<open>t\<close> in a list of questions, counted directly: the questions of the
  topic answered correctly, the questions of the topic, and their details in order. The
  accuracy of a topic is \<^verbatim>\<open>(correct / total) * 100\<close> of that tally.
\<close>

definition tally_of :: "QuestionSubmission list \<Rightarrow> string \<Rightarrow> topic_data" where
  "tally_of qs t =
     \<lparr>correct = length (filter (\<lambda>q. topic q = t \<and> answered_correctly q) qs),
      total = length (filter (\<lambda>q. topic q = t) qs),
      t_questions = map detail_of (filter (\<lambda>q. topic q = t) qs)\<rparr>"

definition accuracy :: "topic_data \<Rightarrow> real" where
  "accuracy d = (real (correct d) / real (total d)) * 100"

text \<open>
  The analytics row after lines 147 to 167, when no statement of them raises, written
  out field by field.
\<close>

definition updated_row ::
  "datetime \<Rightarrow> datetime \<Rightarrow> StudentAnalytics \<Rightarrow> TestResult list \<Rightarrow> real
     \<Rightarrow> QuestionSubmission list \<Rightarrow> StudentAnalytics" where
  "updated_row now1 now2 a prev sc qs =
     a\<lparr>total_tests_taken := map_option (\<lambda>n. n + 1) (total_tests_taken a),
       last_activity := Some now1,
       average_test_score :=
         Some ((sum_list (map tr_score prev) + sc) / (real (length prev) + 1)),
       weak_topics :=
         Some (map fst (filter (\<lambda>(t, d). accuracy d < 70) (group_by_topic qs))),
       strong_topics :=
         Some (map fst (filter (\<lambda>(t, d). accuracy d \<ge> 90) (group_by_topic qs))),
       learning_streak :=
         (if now2 - now1 \<le> one_day then map_option (\<lambda>k. k + 1) (learning_streak a)
          else Some 1)\<rparr>"

section \<open>Example data\<close>

text \<open>
  Two questions on fractions: one answered as the key has it, one whose answer differs
  from the key in the case of one letter. A database with six results of student 1 and
  one of student 2; students 1 and 4 have an analytics row, student 3 has none.
\<close>

definition q_right :: QuestionSubmission where
  "q_right = \<lparr>question_text = ''1/4 + 1/4'', correct_answer = ''1/2'', student_answer = ''1/2'',
              topic = ''fractions'', subtopic = ''addition''\<rparr>"

definition q_wrong :: QuestionSubmission where
  "q_wrong = \<lparr>question_text = ''name of 1/2'', correct_answer = ''a half'',
              student_answer = ''A half'', topic = ''fractions'', subtopic = ''names''\<rparr>"

definition groq_ok :: "prompt \<Rightarrow> error + string" where
  "groq_ok p = Inr ''Good work on fractions.''"


definition sub_example :: TestSubmission where
  "sub_example = \<lparr>questions = [q_right, q_wrong], time_taken = 30\<rparr>"

definition ins_example :: "real \<Rightarrow> insights" where
  "ins_example sc =
     \<lparr>analysis = ''Good work on fractions.'',
      topic_performance = group_by_topic [q_right, q_wrong], score = sc, i_time_taken = 30\<rparr>"

definition result_example :: "nat \<Rightarrow> nat \<Rightarrow> real \<Rightarrow> datetime \<Rightarrow> TestResult" where
  "result_example i sid sc t =
     \<lparr>tr_id = i, tr_student_id = sid, tr_test_id = 1, tr_score = sc, completed_at = t,
      ai_feedback = ins_example sc, tr_total_questions = 2, tr_correct_answers = 1,
      topics_summary = [], tr_time_taken = 30\<rparr>"

definition analytics_example :: StudentAnalytics where
  "analytics_example =
     \<lparr>student_id = 1, total_flashcards_viewed = Some 0, total_tests_taken = Some 6,
      average_test_score = Some 80, weak_topics = Some [''algebra''], strong_topics = Some [],
      learning_streak = Some 3, last_activity = Some 0, historical_performance = None\<rparr>"

definition db_example :: db where
  "db_example =
     \<lparr>test_results =
        [result_example 1 1 0 10, result_example 2 1 100 20, result_example 3 2 5 25,
         result_example 4 1 60 30, result_example 5 1 70 40, result_example 6 1 90 50,
         result_example 7 1 80 60],
      test_questions = [],
      student_analytics = [1 \<mapsto> analytics_example, 4 \<mapsto> analytics_example\<lparr>student_id := 4\<rparr>]\<rparr>"

definition chart_example :: "(datetime \<times> real) list \<Rightarrow> string" where
  "chart_example series = ''chart of '' @ replicate (length series) CHR ''*''"

definition hour :: int where
  "hour = 3600000000"

section \<open>Grouping by topic\<close>

lemma group_by_topic_snoc:
  "group_by_topic (qs @ [q]) = tally_question (group_by_topic qs) q"
  by (simp add: group_by_topic_def)

lemma map_of_tally_question:
  "map_of (tally_question tp q) =
     (map_of tp)(topic q \<mapsto>
        (let d = (case map_of tp (topic q) of
                    None \<Rightarrow> \<lparr>correct = 0, total = 0, t_questions = []\<rparr> | Some d \<Rightarrow> d)
         in \<lparr>correct = correct d + (if answered_correctly q then 1 else 0),
             total = total d + 1,
             t_questions = t_questions d @ [detail_of q]\<rparr>))"
  by (rule ext)
     (auto simp: tally_question_def AList.map_of_map_entry Let_def map_add_def
           split: option.splits)

lemma map_of_group_by_topic:
  "map_of (group_by_topic qs) t =
     (if t \<in> topic ` set qs then Some (tally_of qs t) else None)"
proof (induction qs rule: rev_induct)
  case Nil
  show ?case by (simp add: group_by_topic_def)
next
  case (snoc q qs)
  show ?case
    unfolding group_by_topic_snoc map_of_tally_question
    using snoc by (auto simp: tally_of_def Let_def filter_empty_conv) (metis imageI)+
qed

lemma distinct_tally_question:
  "distinct (map fst tp) \<Longrightarrow> distinct (map fst (tally_question tp q))"
  unfolding tally_question_def Let_def
  by (rule AList.distinct_map_entry) (auto simp: map_of_eq_None_iff)

lemma distinct_group_by_topic: "distinct (map fst (group_by_topic qs))"
  by (induction qs rule: rev_induct)
     (simp_all add: group_by_topic_snoc distinct_tally_question, simp add: group_by_topic_def)

lemma keys_group_by_topic: "fst ` set (group_by_topic qs) = topic ` set qs"
proof -
  have "dom (map_of (group_by_topic qs)) = topic ` set qs"
    by (auto simp: dom_def map_of_group_by_topic)
  then show ?thesis by (simp add: dom_map_of_conv_image_fst)
qed

lemma group_by_topic_entry:
  "(t, d) \<in> set (group_by_topic qs) \<longleftrightarrow> t \<in> topic ` set qs \<and> d = tally_of qs t"
proof -
  have "(t, d) \<in> set (group_by_topic qs) \<longleftrightarrow> map_of (group_by_topic qs) t = Some d"
    using distinct_group_by_topic by (metis map_of_eq_Some_iff)
  then show ?thesis by (auto simp: map_of_group_by_topic)
qed




section \<open>The aggregator on an existing row\<close>

lemma total_tally_of_pos: "t \<in> topic ` set qs \<Longrightarrow> 0 < total (tally_of qs t)"
  by (auto simp: tally_of_def filter_empty_conv)

lemma topic_strengths_ok:
  "\<forall>(t, d) \<in> set tp. total d \<noteq> 0 \<Longrightarrow>
   topic_strengths tp = Inr (map (\<lambda>(t, d). (t, accuracy d)) tp)"
  by (induction tp rule: topic_strengths.induct) (auto simp: accuracy_def)

lemma topic_strengths_group:
  "topic_strengths (group_by_topic qs) =
     Inr (map (\<lambda>(t, d). (t, accuracy d)) (group_by_topic qs))"
proof (rule topic_strengths_ok)
  show "\<forall>(t, d) \<in> set (group_by_topic qs). total d \<noteq> 0"
    using total_tally_of_pos by (fastforce simp: group_by_topic_entry)
qed

lemma update_analytics_ok:
  assumes "total_tests_taken a = Some n"
    and "topic_strengths (topic_performance ins) = Inr ts"
    and "now2 - now1 \<le> one_day \<longrightarrow> learning_streak a \<noteq> None"
  shows "update_analytics now1 now2 a prev ins =
     Inr (a\<lparr>total_tests_taken := Some (n + 1),
            last_activity := Some now1,
            average_test_score :=
              Some (sum_list (map tr_score prev @ [score ins]) / real (length (map tr_score prev @ [score ins]))),
            weak_topics := Some (map fst (filter (\<lambda>(t, s). s < 70) ts)),
            strong_topics := Some (map fst (filter (\<lambda>(t, s). s \<ge> 90) ts)),
            learning_streak :=
              (if now2 - now1 \<le> one_day then map_option (\<lambda>k. k + 1) (learning_streak a)
               else Some 1)\<rparr>)"
  using assms by (auto simp: update_analytics_def Let_def split: option.splits)

lemma filter_strengths:
  "map fst (filter (\<lambda>(t, s). P s) (map (\<lambda>(t, d). (t, accuracy d)) tp))
     = map fst (filter (\<lambda>(t, d). P (accuracy d)) tp)"
  by (induction tp) auto

lemma update_analytics_group:
  assumes "total_tests_taken a = Some n" and "learning_streak a = Some k"
    and "topic_performance ins = group_by_topic qs"
  shows "update_analytics now1 now2 a prev ins
           = Inr (updated_row now1 now2 a prev (score ins) qs)"
proof -
  have ts: "topic_strengths (topic_performance ins)
              = Inr (map (\<lambda>(t, d). (t, accuracy d)) (group_by_topic qs))"
    using assms(3) by (simp add: topic_strengths_group)
  have "now2 - now1 \<le> one_day \<longrightarrow> learning_streak a \<noteq> None"
    using assms(2) by simp
  from update_analytics_ok [OF assms(1) ts this]
  show ?thesis
    using assms(1) by (simp add: updated_row_def filter_strengths add.commute)
qed

lemma store_submission_group:
  assumes "student_analytics d sid = Some a"
    and "total_tests_taken a = Some n" and "learning_streak a = Some k"
    and "topic_performance ins = group_by_topic qs"
  shows "\<exists>resp d'. store_submission now0 now1 now2 d sid tid sub prev ins = (Inr resp, d')
           \<and> student_analytics d' sid = Some (updated_row now1 now2 a prev (score ins) qs)"
  using assms(1) update_analytics_group [OF assms(2,3,4)]
  by (simp add: store_submission_def Let_def)

lemma weak_set:
  "set (map fst (filter (\<lambda>(t, d). P (accuracy d)) (group_by_topic qs)))
     = {t \<in> topic ` set qs. P (accuracy (tally_of qs t))}"
  by (auto simp: group_by_topic_entry image_iff)

section \<open>The queries\<close>


lemma recent_results_length_eq:
  "length (recent_results n sid d)
     = min n (length (filter (\<lambda>r. tr_student_id r = sid) (test_results d)))"
  by (simp add: recent_results_def min.commute)

lemma recent_results_empty:
  "0 < n \<Longrightarrow> recent_results n sid d = [] \<longleftrightarrow>
     filter (\<lambda>r. tr_student_id r = sid) (test_results d) = []"
proof -
  have "length (recent_results n sid d) = 0 \<longleftrightarrow>
     length (filter (\<lambda>r. tr_student_id r = sid) (test_results d)) = 0" if "0 < n"
    unfolding recent_results_length_eq using that by (auto simp: min_def)
  then show "0 < n \<Longrightarrow> ?thesis" by simp
qed

lemma recent_results_sorted:
  "sorted_wrt (\<lambda>x y. completed_at x \<ge> completed_at y) (recent_results n sid d)"
proof -
  let ?xs = "sort_key (\<lambda>r. - completed_at r) (filter (\<lambda>r. tr_student_id r = sid) (test_results d))"
  have "sorted (map (\<lambda>r. - completed_at r) ?xs)" by (rule sorted_sort_key)
  then have "sorted_wrt (\<lambda>x y. completed_at x \<ge> completed_at y) ?xs"
    by (simp add: sorted_map)
  then show ?thesis
    unfolding recent_results_def by (rule sorted_wrt_take)
qed

lemma recent_results_most_recent:
  "\<exists>rest. mset (recent_results n sid d) + mset rest
             = mset (filter (\<lambda>r. tr_student_id r = sid) (test_results d))
         \<and> (\<forall>x \<in> set rest. \<forall>y \<in> set (recent_results n sid d). completed_at x \<le> completed_at y)"
proof -
  let ?xs = "sort_key (\<lambda>r. - completed_at r) (filter (\<lambda>r. tr_student_id r = sid) (test_results d))"
  have s: "sorted (map (\<lambda>r. - completed_at r) (take n ?xs @ drop n ?xs))"
    by (simp only: append_take_drop_id sorted_sort_key)
  have "mset (take n ?xs) + mset (drop n ?xs) = mset ?xs"
    by (metis append_take_drop_id mset_append)
  moreover have "\<forall>x \<in> set (drop n ?xs). \<forall>y \<in> set (take n ?xs). completed_at x \<le> completed_at y"
    using s by (auto simp: sorted_append simp del: append_take_drop_id)
  ultimately show ?thesis
    unfolding recent_results_def by (intro exI [of _ "drop n ?xs"]) simp
qed


section \<open>The composer and the streak\<close>

lemma generate_ai_insights_raises:
  "qs \<noteq> [] \<Longrightarrow> generate_ai_insights groq qs prev = Inl AttributeError"
  by (cases qs)
     (simp_all add: generate_ai_insights_def score_questions_def Let_def
        first_question_time_taken_def question_time_taken_def)

lemma generate_ai_insights_empty:
  "generate_ai_insights groq [] prev = Inl ZeroDivisionError"
  by (simp add: generate_ai_insights_def score_questions_def)

lemma streak_always_incremented:
  assumes "total_tests_taken a = Some n" and "learning_streak a = Some k"
    and "topic_performance ins = group_by_topic qs"
    and "now2 - now1 \<le> one_day"
  shows "\<exists>a'. update_analytics now1 now2 a prev ins = Inr a'
           \<and> learning_streak a' = Some (k + 1) \<and> last_activity a' = Some now1"
  using update_analytics_group [OF assms(1-3), of now1 now2 prev] assms(2,4)
  by (simp add: updated_row_def)

section \<open>Claims\<close>

text \<open>
  C1. The claim: the streak update compares the current time with the \<^verbatim>\<open>last_activity\<close>
  from before the call. The code at the row of student 1, last active at time 0 with a
  streak of 3, for a submission 25 hours later: line 148 has already stored the new
  timestamp when line 164 reads \<^verbatim>\<open>last_activity\<close>, the gap it computes is one
  microsecond, and the streak becomes 4 where the claim resets it to 1.
\<close>

theorem streak_compares_with_new_timestamp:
  "last_activity analytics_example = Some 0
   \<and> learning_streak analytics_example = Some 3
   \<and> (25 * hour + 1) - 0 > one_day
   \<and> (\<exists>a'. update_analytics (25 * hour) (25 * hour + 1) analytics_example
               (recent_results 5 1 db_example) (ins_example 50) = Inr a'
           \<and> last_activity a' = Some (25 * hour)
           \<and> learning_streak a' = Some 4)"
proof -
  have h2: "total_tests_taken analytics_example = Some 6"
    by (simp add: analytics_example_def)
  have h3: "learning_streak analytics_example = Some 3"
    by (simp add: analytics_example_def)
  have h4: "topic_performance (ins_example 50) = group_by_topic [q_right, q_wrong]"
    by (simp add: ins_example_def)
  have h5: "(25 * hour + 1) - 25 * hour \<le> one_day"
    by (simp add: one_day_def)
  have h6: "(25 * hour + 1) - 0 > one_day"
    by (simp add: one_day_def hour_def)
  have h7: "last_activity analytics_example = Some 0"
    by (simp add: analytics_example_def)
  from streak_always_incremented [OF h2 h3 h4 h5, of "recent_results 5 1 db_example"]
  obtain a' where
    "update_analytics (25 * hour) (25 * hour + 1) analytics_example
       (recent_results 5 1 db_example) (ins_example 50) = Inr a'"
    "last_activity a' = Some (25 * hour)" "learning_streak a' = Some 4"
    by auto
  with h3 h6 h7 show ?thesis by (intro conjI exI)
qed

text \<open>
  C2. The claim: the payload of the composer holds the \<^verbatim>\<open>time_taken\<close> of the
  submission. The code on a submission of two questions with \<^verbatim>\<open>time_taken\<close> 30: the
  composer reads \<^verbatim>\<open>questions[0].time_taken\<close>, an attribute no question has, and raises
  \<^verbatim>\<open>AttributeError\<close>; no payload is produced and \<^verbatim>\<open>submit_test\<close> fails.
\<close>

theorem composer_reads_missing_attribute:
  "time_taken sub_example = 30
   \<and> generate_ai_insights groq_ok (questions sub_example) (recent_results 5 1 db_example)
       = Inl AttributeError
   \<and> submit_test groq_ok (23 * hour) (23 * hour) (23 * hour + 1) db_example 1 1 sub_example
       = (Inl AttributeError, db_example)"
proof -
  have q: "questions sub_example \<noteq> []" by (simp add: sub_example_def)
  have g: "generate_ai_insights groq_ok (questions sub_example) (recent_results 5 1 db_example)
             = Inl AttributeError"
    using q by (rule generate_ai_insights_raises)
  have "submit_test groq_ok (23 * hour) (23 * hour) (23 * hour + 1) db_example 1 1 sub_example
       = (Inl AttributeError, db_example)"
    unfolding submit_test_def Let_def g by simp
  with g show ?thesis by (simp add: sub_example_def)
qed

text \<open>
  C3. The claim: an empty question list is rejected with an invalid-input error. The
  code on a submission with no question: line 33 divides by the number of questions and
  raises \<^verbatim>\<open>ZeroDivisionError\<close>; the database is left as it was.
\<close>

theorem empty_submission_zero_division:
  "submit_test groq_ok (23 * hour) (23 * hour) (23 * hour + 1) db_example 1 1
     \<lparr>questions = [], time_taken = 30\<rparr> = (Inl ZeroDivisionError, db_example)"
  by (simp add: submit_test_def Let_def generate_ai_insights_empty)

text \<open>
  C4. The claim: the first submission of a student creates the row with counters at zero
  and leaves \<^verbatim>\<open>total_tests_taken\<close> at 1. The code for student 3, who has no row: the
  new object has \<^verbatim>\<open>total_tests_taken = None\<close>, line 147 adds 1 to it and raises
  \<^verbatim>\<open>TypeError\<close>; nothing is committed.
\<close>

theorem first_submission_increments_none:
  "student_analytics db_example 3 = None
   \<and> total_tests_taken (new_StudentAnalytics 3) = None
   \<and> store_submission (23 * hour) (23 * hour) (23 * hour + 1) db_example 3 1 sub_example
        (recent_results 5 3 db_example) (ins_example 50) = (Inl TypeError, db_example)"
proof -
  have n: "student_analytics db_example 3 = None"
    by (simp add: db_example_def)
  have u: "update_analytics now1 now2 (new_StudentAnalytics 3) prev ins = Inl TypeError"
    for now1 now2 prev ins
    by (simp add: update_analytics_def new_StudentAnalytics_def)
  have "store_submission (23 * hour) (23 * hour) (23 * hour + 1) db_example 3 1 sub_example
        (recent_results 5 3 db_example) (ins_example 50) = (Inl TypeError, db_example)"
    unfolding store_submission_def Let_def n by (simp add: u)
  with n show ?thesis by (simp add: new_StudentAnalytics_def)
qed









text \<open>
  C9. The performance query fails with \<^verbatim>\<open>HTTPException(404)\<close> for a student without
  analytics row. For a student with one it returns the fields of the row, and the data
  of the 10 most recent results of the student, most recent first (all of them when
  there are fewer); the chart is \<^verbatim>\<open>None\<close> exactly when the student has no result.
\<close>

theorem performance_query:
  "(student_analytics d sid = None \<longrightarrow>
      get_student_performance chart d sid
        = Inl (HTTPException 404 ''Student analytics not found''))
   \<and> (\<forall>a. student_analytics d sid = Some a \<longrightarrow>
        (\<exists>p. get_student_performance chart d sid = Inr p
           \<and> stats p = \<lparr>o_total_tests_taken = total_tests_taken a,
                         o_average_score = average_test_score a,
                         o_learning_streak = learning_streak a,
                         o_weak_topics = weak_topics a,
                         o_strong_topics = strong_topics a,
                         o_last_activity = last_activity a\<rparr>
           \<and> recent_tests p = map test_datum_of (recent_results 10 sid d)
           \<and> length (recent_results 10 sid d)
               = min 10 (length (filter (\<lambda>r. tr_student_id r = sid) (test_results d)))
           \<and> sorted_wrt (\<lambda>x y. completed_at x \<ge> completed_at y) (recent_results 10 sid d)
           \<and> (\<exists>rest. mset (recent_results 10 sid d) + mset rest
                         = mset (filter (\<lambda>r. tr_student_id r = sid) (test_results d))
                     \<and> (\<forall>x \<in> set rest. \<forall>y \<in> set (recent_results 10 sid d).
                           completed_at x \<le> completed_at y))
           \<and> performance_chart p
               = (if filter (\<lambda>r. tr_student_id r = sid) (test_results d) = [] then None
                  else Some (chart (map (\<lambda>t. (completed_at t, tr_score t))
                                      (recent_results 10 sid d))))))"
proof (intro conjI impI allI)
  assume "student_analytics d sid = None"
  then show "get_student_performance chart d sid
        = Inl (HTTPException 404 ''Student analytics not found'')"
    by (simp add: get_student_performance_def)
next
  fix a
  assume a: "student_analytics d sid = Some a"
  have e: "recent_results 10 sid d = [] \<longleftrightarrow>
     filter (\<lambda>r. tr_student_id r = sid) (test_results d) = []"
    by (rule recent_results_empty) simp
  have m: "(\<lambda>x. (date x, td_score x)) \<circ> test_datum_of
             = (\<lambda>t. (completed_at t, tr_score t))"
    by (rule ext) (simp add: test_datum_of_def)
  let ?p = "\<lparr>stats = \<lparr>o_total_tests_taken = total_tests_taken a,
                         o_average_score = average_test_score a,
                         o_learning_streak = learning_streak a,
                         o_weak_topics = weak_topics a,
                         o_strong_topics = strong_topics a,
                         o_last_activity = last_activity a\<rparr>,
             recent_tests = map test_datum_of (recent_results 10 sid d),
             performance_chart =
               (if filter (\<lambda>r. tr_student_id r = sid) (test_results d) = [] then None
                else Some (chart (map (\<lambda>t. (completed_at t, tr_score t))
                                    (recent_results 10 sid d))))\<rparr>"
  have g: "get_student_performance chart d sid = Inr ?p"
    using a e by (simp add: get_student_performance_def Let_def m)
  show "\<exists>p. get_student_performance chart d sid = Inr p
           \<and> stats p = \<lparr>o_total_tests_taken = total_tests_taken a,
                         o_average_score = average_test_score a,
                         o_learning_streak = learning_streak a,
                         o_weak_topics = weak_topics a,
                         o_strong_topics = strong_topics a,
                         o_last_activity = last_activity a\<rparr>
           \<and> recent_tests p = map test_datum_of (recent_results 10 sid d)
           \<and> length (recent_results 10 sid d)
               = min 10 (length (filter (\<lambda>r. tr_student_id r = sid) (test_results d)))
           \<and> sorted_wrt (\<lambda>x y. completed_at x \<ge> completed_at y) (recent_results 10 sid d)
           \<and> (\<exists>rest. mset (recent_results 10 sid d) + mset rest
                         = mset (filter (\<lambda>r. tr_student_id r = sid) (test_results d))
                     \<and> (\<forall>x \<in> set rest. \<forall>y \<in> set (recent_results 10 sid d).
                           completed_at x \<le> completed_at y))
           \<and> performance_chart p
               = (if filter (\<lambda>r. tr_student_id r = sid) (test_results d) = [] then None
                  else Some (chart (map (\<lambda>t. (completed_at t, tr_score t))
                                      (recent_results 10 sid d))))"
    using g recent_results_length_eq [of 10 sid d] recent_results_sorted [of 10 sid d]
      recent_results_most_recent [of 10 sid d]
    by (intro exI [of _ ?p]) simp
qed

theorem performance_query_witness:
  "student_analytics db_example 3 = None
   \<and> get_student_performance chart_example db_example 3
       = Inl (HTTPException 404 ''Student analytics not found'')
   \<and> student_analytics db_example 4 = Some (analytics_example\<lparr>student_id := 4\<rparr>)
   \<and> (\<exists>p. get_student_performance chart_example db_example 4 = Inr p
          \<and> recent_tests p = [] \<and> performance_chart p = None)
   \<and> student_analytics db_example 1 = Some analytics_example
   \<and> (\<exists>p. get_student_performance chart_example db_example 1 = Inr p
          \<and> map date (recent_tests p) = [60, 50, 40, 30, 20, 10]
          \<and> performance_chart p = Some ''chart of ******'')"
proof -
  have a3: "student_analytics db_example 3 = None"
    by (simp add: db_example_def)
  have a4: "student_analytics db_example 4 = Some (analytics_example\<lparr>student_id := 4\<rparr>)"
    by (simp add: db_example_def)
  have a1: "student_analytics db_example 1 = Some analytics_example"
    by (simp add: db_example_def)
  have f4: "filter (\<lambda>r. tr_student_id r = 4) (test_results db_example) = []"
    by (simp add: db_example_def result_example_def)
  have r4: "recent_results 10 4 db_example = []"
    unfolding recent_results_def f4 by simp
  have r1: "recent_results 10 1 db_example =
     [result_example 7 1 80 60, result_example 6 1 90 50, result_example 5 1 70 40,
      result_example 4 1 60 30, result_example 2 1 100 20, result_example 1 1 0 10]"
    by (simp add: recent_results_def db_example_def result_example_def)
  have f1: "filter (\<lambda>r. tr_student_id r = 1) (test_results db_example) \<noteq> []"
    by (simp add: db_example_def result_example_def)
  note q3 = performance_query [of db_example 3 chart_example]
  note q4 = performance_query [of db_example 4 chart_example]
  note q1 = performance_query [of db_example 1 chart_example]
  from q3 a3 have c3: "get_student_performance chart_example db_example 3
       = Inl (HTTPException 404 ''Student analytics not found'')"
    by blast
  from q4 a4 obtain p4 where p4: "get_student_performance chart_example db_example 4 = Inr p4"
    "recent_tests p4 = map test_datum_of (recent_results 10 4 db_example)"
    "performance_chart p4
       = (if filter (\<lambda>r. tr_student_id r = 4) (test_results db_example) = [] then None
          else Some (chart_example (map (\<lambda>t. (completed_at t, tr_score t))
                                      (recent_results 10 4 db_example))))"
    by blast
  have c4: "recent_tests p4 = []" "performance_chart p4 = None"
    using p4(2,3) unfolding r4 f4 by simp_all
  from q1 a1 obtain p1 where p1: "get_student_performance chart_example db_example 1 = Inr p1"
    "recent_tests p1 = map test_datum_of (recent_results 10 1 db_example)"
    "performance_chart p1
       = (if filter (\<lambda>r. tr_student_id r = 1) (test_results db_example) = [] then None
          else Some (chart_example (map (\<lambda>t. (completed_at t, tr_score t))
                                      (recent_results 10 1 db_example))))"
    by blast
  have c1: "map date (recent_tests p1) = [60, 50, 40, 30, 20, 10]"
    unfolding p1(2) r1 by (simp add: test_datum_of_def result_example_def)
  have c1': "performance_chart p1 = Some ''chart of ******''"
    unfolding p1(3) r1 using f1 by (simp add: chart_example_def)
  from a3 c3 a4 p4(1) c4 a1 p1(1) c1 c1' show ?thesis by (intro conjI exI)
qed

text \<open>
  C10. For a student with an analytics row, once the composer has returned its payload,
  no topic is in both the stored \<^verbatim>\<open>weak_topics\<close> and the stored \<^verbatim>\<open>strong_topics\<close>.
\<close>

theorem weak_strong_disjoint:
  assumes "student_analytics d sid = Some a"
    and "total_tests_taken a = Some n" and "learning_streak a = Some k"
    and "topic_performance ins = group_by_topic qs"
  shows "\<exists>resp d' a' weak strong.
           store_submission now0 now1 now2 d sid tid sub prev ins = (Inr resp, d')
         \<and> student_analytics d' sid = Some a'
         \<and> weak_topics a' = Some weak \<and> strong_topics a' = Some strong
         \<and> set weak \<inter> set strong = {}"
proof -
  let ?w = "map fst (filter (\<lambda>(t, d). accuracy d < 70) (group_by_topic qs))"
  let ?s = "map fst (filter (\<lambda>(t, d). accuracy d \<ge> 90) (group_by_topic qs))"
  let ?a = "updated_row now1 now2 a prev (score ins) qs"
  from store_submission_group [OF assms]
  obtain resp d' where 1:
    "store_submission now0 now1 now2 d sid tid sub prev ins = (Inr resp, d')"
    "student_analytics d' sid = Some ?a"
    by blast
  have 2: "weak_topics ?a = Some ?w" "strong_topics ?a = Some ?s"
    by (simp_all add: updated_row_def)
  have "set ?w \<inter> set ?s = {}"
    unfolding weak_set [where P = "\<lambda>x. x < 70"] weak_set [where P = "\<lambda>x. x \<ge> 90"]
    by auto
  with 1 2 show ?thesis by blast
qed

theorem weak_strong_disjoint_witness:
  "student_analytics db_example 1 = Some analytics_example
   \<and> total_tests_taken analytics_example = Some 6
   \<and> learning_streak analytics_example = Some 3
   \<and> topic_performance (ins_example 50) = group_by_topic [q_right, q_wrong]
   \<and> (\<exists>resp d' a' weak strong.
         store_submission (23 * hour) (23 * hour) (23 * hour + 1) db_example 1 1 sub_example
           (recent_results 5 1 db_example) (ins_example 50) = (Inr resp, d')
       \<and> student_analytics d' 1 = Some a'
       \<and> weak_topics a' = Some weak \<and> strong_topics a' = Some strong
       \<and> set weak \<inter> set strong = {})"
proof -
  have h1: "student_analytics db_example 1 = Some analytics_example"
    by (simp add: db_example_def)
  have h2: "total_tests_taken analytics_example = Some 6"
    by (simp add: analytics_example_def)
  have h3: "learning_streak analytics_example = Some 3"
    by (simp add: analytics_example_def)
  have h4: "topic_performance (ins_example 50) = group_by_topic [q_right, q_wrong]"
    by (simp add: ins_example_def)
  from weak_strong_disjoint [OF h1 h2 h3 h4, of "23 * hour" "23 * hour" "23 * hour + 1" 1
      sub_example "recent_results 5 1 db_example"]
  obtain resp d' a' weak strong where
    "store_submission (23 * hour) (23 * hour) (23 * hour + 1) db_example 1 1 sub_example
           (recent_results 5 1 db_example) (ins_example 50) = (Inr resp, d')"
    "student_analytics d' 1 = Some a'"
    "weak_topics a' = Some weak" "strong_topics a' = Some strong"
    "set weak \<inter> set strong = {}"
    by (elim exE conjE)
  with h1 h2 h3 h4 show ?thesis by (intro conjI exI)
qed

end
